theory Spec2Isabelle
  imports Main "HOL-Library.Word"
begin

unbundle bit_operations_syntax

section \<open>Machine types of the AVR target\<close>

text \<open>
  The code is compiled for 8-bit AVR microcontrollers: \<open>uint8_t\<close> and \<open>char\<close> are 8 bits,
  \<open>int\<close> and \<open>uint16_t\<close> are 16 bits, \<open>long\<close> and \<open>uint32_t\<close> are 32 bits.
\<close>

type_synonym uint8_t = "8 word"
type_synonym uint16_t = "16 word"
type_synonym uint32_t = "32 word"
type_synonym c_int = "16 word"

text \<open>\<open>_BV(b)\<close> of avr-libc: \<open>1 << b\<close>.\<close>

definition BV :: "nat \<Rightarrow> uint8_t" where
  "BV b = push_bit b 1"

section \<open>Rotary.hh: the dial\<close>

text \<open>\<open>enum Direction { NONE = 0x00, CW = 0x10, CCW = 0x20 }\<close>, compared with the
  \<open>uint16_t\<close> event value.\<close>

datatype Direction = NONE | CW | CCW

fun Direction_value :: "Direction \<Rightarrow> uint16_t" where
  "Direction_value NONE = 0x00"
| "Direction_value CW = 0x10"
| "Direction_value CCW = 0x20"

text \<open>\<open>template<typename T> class Dial\<close>: the four members of type \<open>T\<close>. The arithmetic
  of \<open>T\<close> is whatever the instance type provides (\<open>int\<close>, a machine word).\<close>

record 'a Dial =
  m_value :: 'a
  m_min :: 'a
  m_max :: 'a
  m_step :: 'a

text \<open>
  \<open>Dial::on_event(type, value)\<close>. The result pairs the updated dial with the argument
  of the \<open>on_change\<close> call, \<open>None\<close> when the handler returns before reaching it.
\<close>

definition on_event ::
  "uint8_t \<Rightarrow> uint16_t \<Rightarrow> ('a::{plus,minus}) Dial \<Rightarrow> 'a Dial \<times> 'a option" where
  "on_event type val d =
     (if val = Direction_value CW then
        (if m_value d = m_max d then (d, None)
         else (let d' = d\<lparr>m_value := m_value d + m_step d\<rparr> in (d', Some (m_value d'))))
      else
        (if m_value d = m_min d then (d, None)
         else (let d' = d\<lparr>m_value := m_value d - m_step d\<rparr> in (d', Some (m_value d')))))"

section \<open>HD44780_IO_MJKDZ.cpp: the backlight\<close>

text \<open>
  The adapter keeps a shadow \<open>m_port\<close> of the expander's eight pins, a union of the byte
  \<open>as_uint8\<close> and bit fields (\<open>data\<close>, \<open>en\<close>, \<open>rs\<close>, \<open>bt\<close>). The union is declared in
  HD44780.hh, which is not among the sources; the position of the one-bit field \<open>bt\<close> within
  the byte is therefore a parameter \<open>bt_pos\<close>. \<open>written\<close> collects the bytes handed to
  \<open>write\<close> (the bus transfer to the device), oldest first.
\<close>

record MJKDZ =
  m_port :: uint8_t
  written :: "uint8_t list"

text \<open>Storing a value into a one-bit field keeps its low bit and leaves the other bits.\<close>

definition store_bit_field :: "nat \<Rightarrow> bool \<Rightarrow> uint8_t \<Rightarrow> uint8_t" where
  "store_bit_field pos v w = (if v then set_bit pos w else unset_bit pos w)"

definition write_port :: "uint8_t \<Rightarrow> MJKDZ \<Rightarrow> MJKDZ" where
  "write_port b io = io\<lparr>written := written io @ [b]\<rparr>"

text \<open>\<open>m_port.bt = !flag; write(m_port.as_uint8);\<close>\<close>

definition set_backlight :: "nat \<Rightarrow> uint8_t \<Rightarrow> MJKDZ \<Rightarrow> MJKDZ" where
  "set_backlight bt_pos flag io =
     (let io' = io\<lparr>m_port := store_bit_field bt_pos (flag = 0) (m_port io)\<rparr>
      in write_port (m_port io') io')"

section \<open>The circular byte buffer\<close>

text \<open>
  Modelled from the spec: the class \<open>IOBuffer\<close> (constructor, \<open>putchar\<close>, \<open>getchar\<close>,
  \<open>flush\<close>) is used by UART.cpp but is not among the sources. The model follows the
  spec's Circular Byte Buffer: a fixed backing storage of capacity \<open>N\<close>, a \<open>head\<close> index
  (next write slot), a \<open>tail\<close> index (next read slot) and an element \<open>count\<close>; \<open>put\<close>
  inserts at \<open>head\<close>, advances it and increments the count, failing without a change when
  full; \<open>get\<close> removes at \<open>tail\<close>, advances it and decrements the count, failing without a
  change when empty; \<open>flush\<close> resets to empty. UART.cpp fixes the failure value: it compares
  the \<open>int\<close> results of \<open>putchar\<close> and \<open>getchar\<close> with \<open>-1\<close>; a success yields the byte.
\<close>

record IOBuffer =
  storage :: "uint8_t list"
  head :: nat
  tail :: nat
  count :: nat

definition capacity :: "IOBuffer \<Rightarrow> nat" where
  "capacity b = length (storage b)"

definition is_full :: "IOBuffer \<Rightarrow> bool" where
  "is_full b = (count b = capacity b)"

definition is_empty :: "IOBuffer \<Rightarrow> bool" where
  "is_empty b = (count b = 0)"

text \<open>Modelled from the spec: \<open>put(byte)\<close> inserts at \<open>head\<close>, advances \<open>head\<close>, increments the
  count; returns failure (\<open>-1\<close>) without mutating state if already full.\<close>

definition IOBuffer_putchar :: "uint8_t \<Rightarrow> IOBuffer \<Rightarrow> IOBuffer \<times> c_int" where
  "IOBuffer_putchar c b =
     (if is_full b then (b, - 1)
      else (b\<lparr>storage := (storage b)[head b := c],
               head := (head b + 1) mod capacity b,
               count := count b + 1\<rparr>, ucast c))"

text \<open>Modelled from the spec: \<open>get()\<close> removes at \<open>tail\<close>, advances \<open>tail\<close>, decrements the
  count; returns failure (\<open>-1\<close>) without mutating state if already empty.\<close>

definition IOBuffer_getchar :: "IOBuffer \<Rightarrow> IOBuffer \<times> c_int" where
  "IOBuffer_getchar b =
     (if is_empty b then (b, - 1)
      else (b\<lparr>tail := (tail b + 1) mod capacity b,
               count := count b - 1\<rparr>, ucast (storage b ! tail b)))"

text \<open>Modelled from the spec: \<open>flush()\<close> resets to empty, discarding contents.\<close>

definition IOBuffer_flush :: "IOBuffer \<Rightarrow> IOBuffer" where
  "IOBuffer_flush b = b\<lparr>head := 0, tail := 0, count := 0\<rparr>"

text \<open>The invariant of the spec's data model, and the queued bytes, oldest first.\<close>

definition IOBuffer_inv :: "IOBuffer \<Rightarrow> bool" where
  "IOBuffer_inv b =
     (count b \<le> capacity b \<and> head b < capacity b \<and> tail b < capacity b \<and>
      head b = (tail b + count b) mod capacity b)"

definition queued :: "IOBuffer \<Rightarrow> uint8_t list" where
  "queued b = map (\<lambda>i. storage b ! ((tail b + i) mod capacity b)) [0..<count b]"

section \<open>UART.cpp: the hardware variant\<close>

text \<open>
  Bit numbers of the USART control registers, from avr-libc's \<open><avr/io.h>\<close> for the
  ATmega328P and ATmega1284P (the toolchain's header, not part of the repository).
\<close>

definition U2X0 :: nat where "U2X0 = 1"
definition TXEN0 :: nat where "TXEN0 = 3"
definition RXEN0 :: nat where "RXEN0 = 4"
definition UDRIE0 :: nat where "UDRIE0 = 5"
definition RXCIE0 :: nat where "RXCIE0 = 7"

text \<open>
  The registers of one USART channel, reached in the methods through \<open>UCSRnA()\<close>,
  \<open>UCSRnB()\<close>, \<open>UCSRnC()\<close> and \<open>UBRRn()\<close>, and in the handlers as \<open>UCSR0B\<close>, \<open>UDR0\<close>,
  \<open>UCSR1B\<close>, \<open>UDR1\<close>. The data register is two registers under one address: a read
  returns the received byte \<open>UDRn_rx\<close> (and consumes it in the hardware, counted in
  \<open>UDRn_reads\<close>); a write hands a byte to the transmitter, collected in \<open>UDRn_tx\<close>,
  oldest first.
\<close>

record usart =
  UCSRnA :: uint8_t
  UCSRnB :: uint8_t
  UCSRnC :: uint8_t
  UBRRn :: uint16_t
  UDRn_rx :: uint8_t
  UDRn_reads :: nat
  UDRn_tx :: "uint8_t list"

text \<open>A \<open>UART\<close> object: its two buffers.\<close>

record UART =
  m_ibuf :: IOBuffer
  m_obuf :: IOBuffer

text \<open>
  \<open>UART::begin(baudrate, format)\<close>. \<open>F_CPU\<close> is a macro of the build, taken as a
  parameter. \<open>baudrate * 8L\<close> and the quotient are computed in \<open>unsigned long\<close>
  (32 bits, wrapping), the result is narrowed to the \<open>uint16_t\<close> \<open>setting\<close>. A division
  by zero is undefined behaviour: the model returns \<open>None\<close> there. Otherwise the result is
  the new register state and the returned \<open>bool\<close>.
\<close>

definition UART_begin :: "uint32_t \<Rightarrow> usart \<Rightarrow> uint32_t \<Rightarrow> uint8_t \<Rightarrow> (usart \<times> bool) option" where
  "UART_begin F_CPU regs baudrate format =
     (if baudrate * 8 = 0 then None
      else
        let setting = (ucast (F_CPU div (baudrate * 8) - 1) :: uint16_t) in
        if setting > 4095 then
          (if baudrate * 16 = 0 then None
           else
             let setting = (ucast (F_CPU div (baudrate * 16) - 1) :: uint16_t) in
             Some (regs\<lparr>UBRRn := setting,
                        UCSRnB := BV RXCIE0 OR BV RXEN0 OR BV TXEN0,
                        UCSRnC := format\<rparr>, True))
        else
          Some (regs\<lparr>UCSRnA := BV U2X0,
                     UBRRn := setting,
                     UCSRnB := BV RXCIE0 OR BV RXEN0 OR BV TXEN0,
                     UCSRnC := format\<rparr>, True))"

text \<open>\<open>UART::end()\<close>, on the registers of the port's channel and the object.\<close>

definition UART_end :: "usart \<times> UART \<Rightarrow> (usart \<times> UART) \<times> bool" where
  "UART_end p =
     (case p of (regs, this) \<Rightarrow>
        ((regs\<lparr>UCSRnB := UCSRnB regs AND NOT (BV RXCIE0 OR BV RXEN0 OR BV TXEN0)\<rparr>,
          this\<lparr>m_obuf := IOBuffer_flush (m_obuf this),
               m_ibuf := IOBuffer_flush (m_ibuf this)\<rparr>), True))"

text \<open>
  \<open>UART::putchar(c)\<close>. While the output buffer refuses the byte the caller sleeps until
  some interrupt handler has run; in this sequential model, where no handler runs in
  between, the call does not return then (\<open>None\<close>). Otherwise the byte is queued, the
  transmit-buffer-empty interrupt is enabled and \<open>c & 0xff\<close> is returned.
\<close>

definition UART_putchar :: "uint8_t \<Rightarrow> usart \<times> UART \<Rightarrow> ((usart \<times> UART) \<times> c_int) option" where
  "UART_putchar c p =
     (case p of (regs, this) \<Rightarrow>
        (case IOBuffer_putchar c (m_obuf this) of (ob, r) \<Rightarrow>
           if r = - 1 then None
           else Some ((regs\<lparr>UCSRnB := UCSRnB regs OR BV UDRIE0\<rparr>, this\<lparr>m_obuf := ob\<rparr>),
                      ucast c)))"

text \<open>
  The globals the interrupt handlers work on: channel 0 with the object \<open>uart\<close>,
  channel 1 with the pointer \<open>uart1\<close> (\<open>None\<close> is the null pointer).
\<close>

record system =
  usart0 :: usart
  uart :: UART
  usart1 :: usart
  uart1 :: "UART option"

text \<open>Modelled from the spec: the macro \<open>bit_clear(p, b)\<close> of Cosa/Bits.h is not among the
  sources; by the spec the handler disables the interrupt with it, so it clears bit \<open>b\<close> of
  \<open>p\<close> and leaves the other bits.\<close>

definition bit_clear :: "uint8_t \<Rightarrow> nat \<Rightarrow> uint8_t" where
  "bit_clear p b = p AND NOT (BV b)"

text \<open>The body shared by \<open>ISR(USART_UDRE_vect)\<close> and \<open>ISR(USART1_UDRE_vect)\<close> after the
  null test: one \<open>getchar\<close> on the output buffer, then the data register or \<open>UDRIE0\<close>.\<close>

definition udre_body :: "usart \<times> UART \<Rightarrow> usart \<times> UART" where
  "udre_body p =
     (case p of (regs, u) \<Rightarrow>
        (case IOBuffer_getchar (m_obuf u) of (ob, c) \<Rightarrow>
           if c \<noteq> - 1 then (regs\<lparr>UDRn_tx := UDRn_tx regs @ [ucast c]\<rparr>, u\<lparr>m_obuf := ob\<rparr>)
           else (regs\<lparr>UCSRnB := bit_clear (UCSRnB regs) UDRIE0\<rparr>, u\<lparr>m_obuf := ob\<rparr>)))"

text \<open>The receive body: read the data register, \<open>putchar\<close> on the input buffer, result
  ignored.\<close>

definition rx_body :: "usart \<times> UART \<Rightarrow> usart \<times> UART" where
  "rx_body p =
     (case p of (regs, u) \<Rightarrow>
        (regs\<lparr>UDRn_reads := UDRn_reads regs + 1\<rparr>,
         u\<lparr>m_ibuf := fst (IOBuffer_putchar (UDRn_rx regs) (m_ibuf u))\<rparr>))"

definition ISR_USART_UDRE :: "system \<Rightarrow> system" where
  "ISR_USART_UDRE s =
     (case udre_body (usart0 s, uart s) of (regs, u) \<Rightarrow> s\<lparr>usart0 := regs, uart := u\<rparr>)"

definition ISR_USART_RX :: "system \<Rightarrow> system" where
  "ISR_USART_RX s =
     (case rx_body (usart0 s, uart s) of (regs, u) \<Rightarrow> s\<lparr>usart0 := regs, uart := u\<rparr>)"

definition ISR_USART1_UDRE :: "system \<Rightarrow> system" where
  "ISR_USART1_UDRE s =
     (case uart1 s of
        None \<Rightarrow> s
      | Some u1 \<Rightarrow>
          (case udre_body (usart1 s, u1) of (regs, u) \<Rightarrow> s\<lparr>usart1 := regs, uart1 := Some u\<rparr>))"

definition ISR_USART1_RX :: "system \<Rightarrow> system" where
  "ISR_USART1_RX s =
     (case uart1 s of
        None \<Rightarrow> s
      | Some u1 \<Rightarrow>
          (case rx_body (usart1 s, u1) of (regs, u) \<Rightarrow> s\<lparr>usart1 := regs, uart1 := Some u\<rparr>))"

text \<open>
  The spec's divisor formulas over the mathematical integers, \<open>D = F/(B\<cdot>8) - 1\<close> and
  \<open>D = F/(B\<cdot>16) - 1\<close>, to compare the registers with.
\<close>

definition spec_divisor8 :: "uint32_t \<Rightarrow> uint32_t \<Rightarrow> int" where
  "spec_divisor8 F B = uint F div (uint B * 8) - 1"

definition spec_divisor16 :: "uint32_t \<Rightarrow> uint32_t \<Rightarrow> int" where
  "spec_divisor16 F B = uint F div (uint B * 16) - 1"

section \<open>UART.cpp: the software variant (ATtiny)\<close>

text \<open>
  What the output pin sees, in order: a level written with \<open>m_pin.write\<close> or a busy wait
  \<open>DELAY(us)\<close> of so many microseconds.
\<close>

datatype line_event = Pin_write bool | DELAY nat

text \<open>
  The members used by the two methods. Their declarations are in UART.hh, which is not
  among the sources: \<open>m_period\<close> holds the 32-bit quotient as computed, and the product
  \<open>m_period * 32\<close> is taken in that unsigned width, wrapping. A delay is recorded with the
  number of microseconds asked for. \<open>line\<close> collects the events on \<open>m_pin\<close>.
\<close>

record UART_tiny =
  m_period :: uint32_t
  m_format :: uint8_t
  line :: "line_event list"

text \<open>\<open>UART::begin\<close> of the software variant; \<open>None\<close> is the undefined division by zero.\<close>

definition UART_tiny_begin :: "uint32_t \<Rightarrow> uint8_t \<Rightarrow> UART_tiny \<Rightarrow> (UART_tiny \<times> bool) option" where
  "UART_tiny_begin baudrate format u =
     (if baudrate = 0 then None
      else Some (u\<lparr>m_period := 1000000 div baudrate, m_format := format\<rparr>, True))"

text \<open>
  The loop of \<open>putchar\<close>: \<open>n\<close> remaining rounds of \<open>m_pin.write(c & 1); DELAY(m_period);
  c >>= 1\<close>. \<open>c\<close> is a \<open>char\<close>, signed on this target, so the shift is arithmetic.
\<close>

fun send_data :: "nat \<Rightarrow> uint8_t \<Rightarrow> nat \<Rightarrow> line_event list" where
  "send_data 0 c p = []"
| "send_data (Suc n) c p =
     Pin_write (c AND 1 \<noteq> 0) # DELAY p # send_data n (signed_drop_bit 1 c) p"

text \<open>
  \<open>UART::putchar\<close> of the software variant. \<open>DATA_MASK\<close> is an enumerator of UART.hh and
  a parameter here. The result is the object and the returned \<open>int\<close>.
\<close>

definition UART_tiny_putchar :: "uint8_t \<Rightarrow> uint8_t \<Rightarrow> UART_tiny \<Rightarrow> UART_tiny \<times> c_int" where
  "UART_tiny_putchar DATA_MASK c u =
     (let res = (ucast c :: c_int);
          bits = m_format u AND DATA_MASK;
          p = unat (m_period u)
      in (u\<lparr>line := line u @ [Pin_write False, DELAY p] @ send_data (unat bits) c p
                      @ [Pin_write True] @ [DELAY (unat (m_period u * 32))]\<rparr>, res))"

text \<open>
  The events of one frame, to state results with: the start bit low for one period, each
  data bit for one period, then the line high and the hold of 32 periods.
\<close>

definition frame_events :: "nat \<Rightarrow> bool list \<Rightarrow> line_event list" where
  "frame_events p bits =
     [Pin_write False, DELAY p] @ concat (map (\<lambda>b. [Pin_write b, DELAY p]) bits)
       @ [Pin_write True, DELAY (p * 32)]"

text \<open>The levels written to the pin, in order, the delays left out.\<close>

fun pin_levels :: "line_event list \<Rightarrow> bool list" where
  "pin_levels [] = []"
| "pin_levels (Pin_write b # es) = b # pin_levels es"
| "pin_levels (DELAY n # es) = pin_levels es"

section \<open>Concrete states\<close>

text \<open>The registers of a channel after a hardware reset (data sheet values): only the
  data-register-empty flag in \<open>UCSRnA\<close> and the 8-bit frame size in \<open>UCSRnC\<close> are set.\<close>

definition reset_usart :: usart where
  "reset_usart = \<lparr>UCSRnA = 0x20, UCSRnB = 0, UCSRnC = 0x06, UBRRn = 0,
                   UDRn_rx = 0, UDRn_reads = 0, UDRn_tx = []\<rparr>"

text \<open>Modelled from the spec: the constructor, as in \<open>IOBuffer ibuf(sizeof(ibuffer), ibuffer)\<close>
  over a zero-initialised static array, yields an empty buffer over \<open>N\<close> bytes of storage.\<close>

definition IOBuffer_init :: "nat \<Rightarrow> IOBuffer" where
  "IOBuffer_init N = \<lparr>storage = replicate N 0, head = 0, tail = 0, count = 0\<rparr>"

text \<open>A port object with two small empty buffers, and a system just started with it: no
  port registered on channel 1.\<close>

definition fresh_uart :: UART where
  "fresh_uart = \<lparr>m_ibuf = IOBuffer_init 2, m_obuf = IOBuffer_init 2\<rparr>"

definition boot_system :: system where
  "boot_system =
     \<lparr>usart0 = reset_usart, uart = fresh_uart, usart1 = reset_usart, uart1 = None\<rparr>"

text \<open>The same system with the byte \<open>0x41\<close> queued for transmission.\<close>

definition sending_system :: system where
  "sending_system =
     boot_system\<lparr>uart := \<lparr>m_ibuf = IOBuffer_init 2,
                            m_obuf = \<lparr>storage = [0x41, 0], head = 1, tail = 0, count = 1\<rparr>\<rparr>\<rparr>"

text \<open>The port open, the transmit interrupt enabled by an earlier write and the output
  buffer drained since.\<close>

definition drained_system :: system where
  "drained_system = boot_system\<lparr>usart0 := reset_usart\<lparr>UCSRnB := 0xB8\<rparr>\<rparr>"

text \<open>The input buffer full with \<open>0x61, 0x62\<close> and a third byte \<open>0x63\<close> in the data
  register.\<close>

definition flooded_system :: system where
  "flooded_system =
     boot_system\<lparr>usart0 := reset_usart\<lparr>UCSRnB := 0x98, UDRn_rx := 0x63\<rparr>,
                 uart := \<lparr>m_ibuf = \<lparr>storage = [0x61, 0x62], head = 0, tail = 0, count = 2\<rparr>,
                          m_obuf = IOBuffer_init 2\<rparr>\<rparr>"

definition tiny0 :: UART_tiny where
  "tiny0 = \<lparr>m_period = 0, m_format = 0, line = []\<rparr>"

text \<open>Channel registers as \<open>begin(9600, 0x06)\<close> leaves them on a 16 MHz part, and the
  same port after a write has queued \<open>0x41\<close> and enabled the transmit interrupt.\<close>

definition open_9600 :: usart where
  "open_9600 = reset_usart\<lparr>UCSRnA := 0x02, UBRRn := 207, UCSRnB := 0x98\<rparr>"

definition writing_port :: "usart \<times> UART" where
  "writing_port =
     (open_9600\<lparr>UCSRnB := 0xB8\<rparr>,
      \<lparr>m_ibuf = IOBuffer_init 2,
       m_obuf = \<lparr>storage = [0x41, 0], head = 1, tail = 0, count = 1\<rparr>\<rparr>)"

section \<open>Facts about machine words\<close>

lemma ucast_byte_neq_minus1: "(ucast (x::uint8_t) :: c_int) \<noteq> - 1"
proof
  assume "(ucast x :: c_int) = - 1"
  then have "bit (ucast x :: c_int) 8 = bit (- 1 :: c_int) 8" by simp
  then show False by (auto simp add: bit_ucast_iff dest: bit_imp_le_length)
qed

lemma ucast_byte_back: "(ucast (ucast (x::uint8_t) :: c_int) :: uint8_t) = x"
  by (rule bit_word_eqI) (auto simp: bit_ucast_iff dest: bit_imp_le_length)

lemma narrow_small:
  fixes d :: uint32_t
  assumes "d \<le> 4095"
  shows "\<not> (ucast d :: uint16_t) > 4095" and "unat (ucast d :: uint16_t) = unat d"
proof -
  have le: "unat d \<le> 4095" using assms by (simp add: word_le_nat_alt)
  then have "unat d < 2 ^ 16" by simp
  then show u: "unat (ucast d :: uint16_t) = unat d"
    by (simp add: unsigned_ucast_eq take_bit_nat_eq_self)
  show "\<not> (ucast d :: uint16_t) > 4095" using u le by (simp add: word_less_nat_alt)
qed

lemma mult8_exact:
  fixes B :: uint32_t
  assumes "unat B * 8 < 2 ^ 32"
  shows "unat (B * 8) = unat B * 8"
proof -
  have e: "unat (8 :: uint32_t) = 8" by simp
  have "unat B * unat (8 :: uint32_t) < 2 ^ LENGTH(32)" using assms by (simp only: e) simp
  then have "unat (B * 8) = unat B * unat (8 :: uint32_t)" by (simp only: unat_mult_lem)
  then show ?thesis by (simp only: e)
qed

lemma minus_one_large: "\<not> (- 1 :: uint32_t) \<le> 4095"
proof
  assume "(- 1 :: uint32_t) \<le> 4095"
  then have "(4095 :: uint32_t) = - 1" by (simp add: word_order.extremum_unique)
  then show False by simp
qed

lemma bit_bit_clear: "bit (bit_clear p b) n \<longleftrightarrow> bit p n \<and> n \<noteq> b"
proof -
  have "bit_clear p b = unset_bit b p"
    by (simp only: bit_clear_def BV_def unset_bit_eq_and_not)
  then show ?thesis by (auto simp: bit_unset_bit_iff)
qed

section \<open>The circular buffer is a queue\<close>

lemma ring_step: "(Suc t mod N + i) mod N = Suc (t + i) mod (N::nat)"
  by (simp add: mod_add_left_eq)

lemma ring_distinct: "i < c \<Longrightarrow> c < N \<Longrightarrow> (t + i) mod N \<noteq> (t + c) mod (N::nat)"
proof
  assume a: "i < c" "c < N" "(t + i) mod N = (t + c) mod N"
  then have "N dvd (t + c) - (t + i)"
    by (metis mod_eq_dvd_iff_nat add_le_cancel_left less_imp_le)
  then have "N dvd c - i" by simp
  then have "N \<le> c - i" using a by (intro dvd_imp_le) simp_all
  then show False using a by simp
qed

lemma IOBuffer_init_inv: "0 < N \<Longrightarrow> IOBuffer_inv (IOBuffer_init N)"
  by (simp add: IOBuffer_inv_def IOBuffer_init_def capacity_def)

lemma IOBuffer_flush_empty: "is_empty (IOBuffer_flush b) \<and> queued (IOBuffer_flush b) = []"
  by (simp add: IOBuffer_flush_def is_empty_def queued_def)

lemma IOBuffer_flush_idem: "IOBuffer_flush (IOBuffer_flush b) = IOBuffer_flush b"
  by (simp add: IOBuffer_flush_def)

lemma getchar_queued:
  assumes "IOBuffer_inv b" "\<not> is_empty b"
  shows "queued b = storage b ! tail b # queued (fst (IOBuffer_getchar b))"
proof -
  from assms obtain k where k: "count b = Suc k"
    by (cases "count b") (auto simp: is_empty_def)
  from assms have N: "0 < capacity b" "tail b < capacity b" by (auto simp: IOBuffer_inv_def)
  show ?thesis using assms N
    by (simp add: queued_def IOBuffer_getchar_def k map_upt_Suc capacity_def ring_step del: upt_Suc)
qed

lemma getchar_inv:
  assumes "IOBuffer_inv b"
  shows "IOBuffer_inv (fst (IOBuffer_getchar b))"
proof (cases "is_empty b")
  case True
  then show ?thesis using assms by (simp add: IOBuffer_getchar_def)
next
  case False
  then obtain k where k: "count b = Suc k"
    by (cases "count b") (auto simp: is_empty_def)
  from assms have N: "0 < capacity b" by (auto simp: IOBuffer_inv_def)
  have "head b = (tail b + Suc k) mod capacity b" using assms k by (simp add: IOBuffer_inv_def)
  also have "\<dots> = ((tail b + 1) mod capacity b + k) mod capacity b"
    by (simp add: ring_step)
  finally show ?thesis using assms False k N
    by (simp add: IOBuffer_inv_def IOBuffer_getchar_def capacity_def)
qed

lemma putchar_inv:
  assumes "IOBuffer_inv b"
  shows "IOBuffer_inv (fst (IOBuffer_putchar c b))"
proof (cases "is_full b")
  case True
  then show ?thesis using assms by (simp add: IOBuffer_putchar_def)
next
  case False
  from assms have N: "0 < capacity b" by (auto simp: IOBuffer_inv_def)
  have "(head b + 1) mod capacity b = ((tail b + count b) mod capacity b + 1) mod capacity b"
    using assms by (simp add: IOBuffer_inv_def)
  also have "\<dots> = (tail b + (count b + 1)) mod capacity b"
    by (simp add: mod_Suc_eq)
  finally show ?thesis using assms False N
    by (simp add: IOBuffer_inv_def IOBuffer_putchar_def capacity_def is_full_def)
qed

lemma putchar_queued:
  assumes "IOBuffer_inv b" "\<not> is_full b"
  shows "queued (fst (IOBuffer_putchar c b)) = queued b @ [c]"
proof -
  let ?N = "capacity b"
  let ?st = "(storage b)[head b := c]"
  from assms have N: "0 < ?N" "count b < ?N" "head b < ?N" "head b = (tail b + count b) mod ?N"
    by (auto simp: IOBuffer_inv_def is_full_def)
  have old: "?st ! ((tail b + i) mod ?N) = storage b ! ((tail b + i) mod ?N)" if "i < count b" for i
  proof -
    have "(tail b + i) mod ?N \<noteq> (tail b + count b) mod ?N"
      by (rule ring_distinct [OF that N(2)])
    then have "head b \<noteq> (tail b + i) mod ?N" using N(4) by simp
    then show ?thesis by (rule nth_list_update_neq)
  qed
  have new: "?st ! ((tail b + count b) mod ?N) = c"
    using N(3) N(4) by (simp add: capacity_def)
  have "queued (fst (IOBuffer_putchar c b)) =
          map (\<lambda>i. ?st ! ((tail b + i) mod ?N)) [0..<Suc (count b)]"
    using assms by (simp add: queued_def IOBuffer_putchar_def capacity_def)
  also have "\<dots> = map (\<lambda>i. ?st ! ((tail b + i) mod ?N)) [0..<count b] @ [c]"
    using new by simp
  also have "map (\<lambda>i. ?st ! ((tail b + i) mod ?N)) [0..<count b] = queued b"
    using old by (simp add: queued_def)
  finally show ?thesis .
qed

section \<open>UART::begin and UART::end\<close>

lemma quotient_int:
  fixes F B :: uint32_t
  assumes "unat B * 8 < 2 ^ 32" "F div (B * 8) - 1 \<le> 4095"
  shows "uint (F div (B * 8) - 1) = spec_divisor8 F B"
proof -
  have q: "unat (F div (B * 8)) = unat F div (unat B * 8)"
    by (simp only: unat_div mult8_exact [OF assms(1)])
  have nz: "F div (B * 8) \<noteq> 0"
  proof
    assume "F div (B * 8) = 0"
    then have "F div (B * 8) - 1 = - 1" by simp
    with assms(2) show False by (simp only: minus_one_large)
  qed
  then have pos: "0 < unat F div (unat B * 8)" by (simp only: unat_gt_0 [symmetric] q)
  have "unat (F div (B * 8) - 1) = unat F div (unat B * 8) - 1"
    by (simp only: unat_minus_one [OF nz] q)
  then have "uint (F div (B * 8) - 1) = int (unat F div (unat B * 8) - 1)"
    by (simp only: uint_nat)
  also have "\<dots> = int (unat F) div (int (unat B) * 8) - 1"
    using pos by (simp add: of_nat_diff zdiv_int)
  finally show ?thesis by (simp only: spec_divisor8_def uint_nat)
qed

lemma begin_double:
  assumes "baudrate * 8 \<noteq> 0" and "F_CPU div (baudrate * 8) - 1 \<le> 4095"
  shows "UART_begin F_CPU regs baudrate format =
           Some (regs\<lparr>UCSRnA := BV U2X0,
                      UBRRn := ucast (F_CPU div (baudrate * 8) - 1),
                      UCSRnB := BV RXCIE0 OR BV RXEN0 OR BV TXEN0,
                      UCSRnC := format\<rparr>, True)"
  using assms(1) narrow_small(1) [OF assms(2)]
  by (simp add: UART_begin_def Let_def)

lemma begin_fallback:
  assumes "baudrate * 8 \<noteq> 0" and "baudrate * 16 \<noteq> 0"
    and "(ucast (F_CPU div (baudrate * 8) - 1) :: uint16_t) > 4095"
  shows "UART_begin F_CPU regs baudrate format =
           Some (regs\<lparr>UBRRn := ucast (F_CPU div (baudrate * 16) - 1),
                      UCSRnB := BV RXCIE0 OR BV RXEN0 OR BV TXEN0,
                      UCSRnC := format\<rparr>, True)"
  using assms by (simp add: UART_begin_def Let_def)

lemma begin_fallback_keeps_UCSRnA:
  assumes "UART_begin F_CPU regs baudrate format = Some (regs', r)"
    and "(ucast (F_CPU div (baudrate * 8) - 1) :: uint16_t) > 4095"
  shows "UCSRnA regs' = UCSRnA regs"
  using assms by (auto simp: UART_begin_def Let_def split: if_splits)

lemma begin_result_true:
  "UART_begin F_CPU regs baudrate format = Some (regs', r) \<Longrightarrow> r"
  by (auto simp: UART_begin_def Let_def split: if_splits)

lemma end_clears_and_flushes:
  assumes "UART_end (regs, u) = ((regs', u'), r)"
  shows "r \<and> \<not> bit (UCSRnB regs') RXCIE0 \<and> \<not> bit (UCSRnB regs') RXEN0 \<and>
         \<not> bit (UCSRnB regs') TXEN0 \<and>
         bit (UCSRnB regs') UDRIE0 = bit (UCSRnB regs) UDRIE0 \<and>
         is_empty (m_ibuf u') \<and> is_empty (m_obuf u')"
  using assms
  by (auto simp: UART_end_def BV_def RXCIE0_def RXEN0_def TXEN0_def UDRIE0_def
      IOBuffer_flush_empty bit_and_iff bit_not_iff bit_or_iff bit_push_bit_iff bit_1_iff)

lemma putchar_enables_UDRIE0:
  assumes "UART_putchar c (regs, u) = Some ((regs', u'), r)"
  shows "bit (UCSRnB regs') UDRIE0 \<and> r = ucast c"
  using assms
  by (auto simp: UART_putchar_def BV_def UDRIE0_def bit_or_iff bit_push_bit_iff bit_1_iff
      split: prod.splits if_splits)

lemma end_idempotent: "UART_end (fst (UART_end p)) = UART_end p"
  by (cases p) (simp add: UART_end_def IOBuffer_flush_idem word_bw_assocs)

text \<open>
  C1. For every call of the hardware variant's \<open>begin\<close> with clock \<open>F\<close> and baud rate \<open>B\<close>
  (the division being defined), the divisor is \<open>F/(B\<cdot>8) - 1\<close> in the code's unsigned
  32-bit integer division, and whenever it does not exceed 4095 it is the value written to
  the divisor register, together with the speed-doubling flag; where \<open>B\<cdot>8\<close> does not wrap,
  the register holds the spec's integer \<open>F/(B\<cdot>8) - 1\<close>. For 16 MHz and 9600 baud this is
  double speed with divisor 207 (the instance below).
\<close>

theorem begin_double_speed_divisor:
  assumes "baudrate * 8 \<noteq> 0" and "F_CPU div (baudrate * 8) - 1 \<le> 4095"
  shows "UART_begin F_CPU regs baudrate format =
           Some (regs\<lparr>UCSRnA := BV U2X0,
                      UBRRn := ucast (F_CPU div (baudrate * 8) - 1),
                      UCSRnB := BV RXCIE0 OR BV RXEN0 OR BV TXEN0,
                      UCSRnC := format\<rparr>, True)
         \<and> (unat baudrate * 8 < 2 ^ 32 \<longrightarrow>
              uint (ucast (F_CPU div (baudrate * 8) - 1) :: uint16_t)
                = spec_divisor8 F_CPU baudrate)"
proof (intro conjI impI)
  show "UART_begin F_CPU regs baudrate format =
           Some (regs\<lparr>UCSRnA := BV U2X0,
                      UBRRn := ucast (F_CPU div (baudrate * 8) - 1),
                      UCSRnB := BV RXCIE0 OR BV RXEN0 OR BV TXEN0,
                      UCSRnC := format\<rparr>, True)"
    by (rule begin_double [OF assms])
next
  assume nowrap: "unat baudrate * 8 < 2 ^ 32"
  have "uint (ucast (F_CPU div (baudrate * 8) - 1) :: uint16_t)
          = uint (F_CPU div (baudrate * 8) - 1)"
    by (simp only: uint_nat narrow_small(2) [OF assms(2)])
  then show "uint (ucast (F_CPU div (baudrate * 8) - 1) :: uint16_t)
               = spec_divisor8 F_CPU baudrate"
    by (simp only: quotient_int [OF nowrap assms(2)])
qed

text \<open>The instance of C1: a 16 MHz clock and 9600 baud select double speed, divisor 207.\<close>

theorem begin_double_speed_divisor_9600:
  "(9600 :: uint32_t) * 8 \<noteq> 0 \<and> (16000000 :: uint32_t) div (9600 * 8) - 1 \<le> 4095 \<and>
   unat (9600 :: uint32_t) * 8 < 2 ^ 32 \<and>
   UART_begin 16000000 reset_usart 9600 0x06 =
     Some (reset_usart\<lparr>UCSRnA := BV U2X0, UBRRn := 207,
                        UCSRnB := BV RXCIE0 OR BV RXEN0 OR BV TXEN0, UCSRnC := 0x06\<rparr>, True) \<and>
   bit (BV U2X0) U2X0 \<and>
   spec_divisor8 16000000 9600 = 207"
proof -
  have a: "(9600 :: uint32_t) * 8 \<noteq> 0" by simp
  have b: "(16000000 :: uint32_t) div (9600 * 8) - 1 \<le> 4095" by simp
  have c: "unat (9600 :: uint32_t) * 8 < 2 ^ 32" by simp
  have d: "(ucast ((16000000 :: uint32_t) div (9600 * 8) - 1) :: uint16_t) = 207" by simp
  have e: "bit (BV U2X0) U2X0" by (simp add: BV_def U2X0_def)
  from begin_double_speed_divisor [OF a b, of reset_usart "0x06"] c d
  have "UART_begin 16000000 reset_usart 9600 0x06 =
     Some (reset_usart\<lparr>UCSRnA := BV U2X0, UBRRn := 207,
                        UCSRnB := BV RXCIE0 OR BV RXEN0 OR BV TXEN0, UCSRnC := 0x06\<rparr>, True)"
    and "spec_divisor8 16000000 9600 = 207"
    by simp_all
  with a b c e show ?thesis by (intro conjI)
qed

text \<open>
  C2, as stated, fails: at 1 baud on a 16 MHz clock the fallback divisor \<open>F/(B\<cdot>16) - 1\<close> is
  999999, far beyond the register's 4095, and \<open>begin\<close> still returns success, having
  written the low 16 bits, 16959, to the divisor register.
\<close>

theorem begin_unrepresentable_baud_succeeds:
  "\<not> spec_divisor16 16000000 1 \<le> 4095 \<and>
   UART_begin 16000000 reset_usart 1 0x06 =
     Some (reset_usart\<lparr>UBRRn := 16959, UCSRnB := BV RXCIE0 OR BV RXEN0 OR BV TXEN0,
                        UCSRnC := 0x06\<rparr>, True)"
  by (simp add: spec_divisor16_def UART_begin_def Let_def)

text \<open>
  C2, amended. \<open>begin\<close> has no failure result: for every clock, register state, format and
  baud rate on which its divisions are defined (\<open>B\<cdot>8\<close> and \<open>B\<cdot>16\<close> not zero modulo \<open>2^32\<close>)
  it returns success, whether or not the baud rate is representable, and programs the port
  all the same: the enable bits, the format, and as divisor \<open>F/(B\<cdot>16) - 1\<close> narrowed to
  16 bits when the narrowed \<open>F/(B\<cdot>8) - 1\<close> exceeds 4095, otherwise the narrowed
  \<open>F/(B\<cdot>8) - 1\<close> together with the speed-doubling flag.
\<close>

theorem begin_always_succeeds:
  assumes "baudrate * 8 \<noteq> 0" and "baudrate * 16 \<noteq> 0"
  shows "\<exists>regs'. UART_begin F_CPU regs baudrate format = Some (regs', True) \<and>
           UBRRn regs' =
             (if (ucast (F_CPU div (baudrate * 8) - 1) :: uint16_t) > 4095
              then ucast (F_CPU div (baudrate * 16) - 1)
              else ucast (F_CPU div (baudrate * 8) - 1)) \<and>
           UCSRnB regs' = BV RXCIE0 OR BV RXEN0 OR BV TXEN0 \<and>
           UCSRnC regs' = format \<and>
           (\<not> (ucast (F_CPU div (baudrate * 8) - 1) :: uint16_t) > 4095
              \<longrightarrow> UCSRnA regs' = BV U2X0)"
  using assms by (simp add: UART_begin_def Let_def)

text \<open>The amended C2 on a 16 MHz clock at two baud rates that no divisor of either mode
  represents. At 2 baud the fallback branch runs and the divisor register receives 41247,
  the low 16 bits of 499999. At 10 baud the double-speed divisor 199999 narrows to 3391,
  which passes the test, so the double-speed branch runs. Both calls return success.\<close>

theorem begin_always_succeeds_unrepresentable:
  "(2 :: uint32_t) * 8 \<noteq> 0 \<and> (2 :: uint32_t) * 16 \<noteq> 0 \<and>
   spec_divisor16 16000000 2 = 499999 \<and>
   (\<exists>regs'. UART_begin 16000000 reset_usart 2 0x06 = Some (regs', True) \<and>
      UBRRn regs' = 41247 \<and> UCSRnB regs' = BV RXCIE0 OR BV RXEN0 OR BV TXEN0 \<and>
      UCSRnC regs' = 0x06) \<and>
   (10 :: uint32_t) * 8 \<noteq> 0 \<and> (10 :: uint32_t) * 16 \<noteq> 0 \<and>
   spec_divisor8 16000000 10 = 199999 \<and> spec_divisor16 16000000 10 = 99999 \<and>
   \<not> (ucast ((16000000 :: uint32_t) div (10 * 8) - 1) :: uint16_t) > 4095 \<and>
   (\<exists>regs'. UART_begin 16000000 reset_usart 10 0x06 = Some (regs', True) \<and>
      UBRRn regs' = 3391 \<and> UCSRnB regs' = BV RXCIE0 OR BV RXEN0 OR BV TXEN0 \<and>
      UCSRnC regs' = 0x06 \<and> UCSRnA regs' = BV U2X0)"
proof -
  have a2: "(2 :: uint32_t) * 8 \<noteq> 0" and b2: "(2 :: uint32_t) * 16 \<noteq> 0" by simp_all
  have a10: "(10 :: uint32_t) * 8 \<noteq> 0" and b10: "(10 :: uint32_t) * 16 \<noteq> 0" by simp_all
  have d: "spec_divisor16 16000000 2 = 499999" "spec_divisor8 16000000 10 = 199999"
    "spec_divisor16 16000000 10 = 99999"
    by (simp_all add: spec_divisor8_def spec_divisor16_def)
  have n2: "(ucast ((16000000 :: uint32_t) div (2 * 8) - 1) :: uint16_t) = 16959"
    "(ucast ((16000000 :: uint32_t) div (2 * 16) - 1) :: uint16_t) = 41247"
    by simp_all
  have n10: "(ucast ((16000000 :: uint32_t) div (10 * 8) - 1) :: uint16_t) = 3391"
    by simp
  have t10: "\<not> (ucast ((16000000 :: uint32_t) div (10 * 8) - 1) :: uint16_t) > 4095"
    by simp
  from begin_always_succeeds [OF a2 b2, of 16000000 reset_usart "0x06"] n2
  have r2: "\<exists>regs'. UART_begin 16000000 reset_usart 2 0x06 = Some (regs', True) \<and>
      UBRRn regs' = 41247 \<and> UCSRnB regs' = BV RXCIE0 OR BV RXEN0 OR BV TXEN0 \<and>
      UCSRnC regs' = 0x06"
    by auto
  from begin_always_succeeds [OF a10 b10, of 16000000 reset_usart "0x06"] n10 t10
  have r10: "\<exists>regs'. UART_begin 16000000 reset_usart 10 0x06 = Some (regs', True) \<and>
      UBRRn regs' = 3391 \<and> UCSRnB regs' = BV RXCIE0 OR BV RXEN0 OR BV TXEN0 \<and>
      UCSRnC regs' = 0x06 \<and> UCSRnA regs' = BV U2X0"
    by auto
  from a2 b2 a10 b10 d t10 r2 r10 show ?thesis by (intro conjI)
qed

text \<open>
  C3 on a 16 MHz part: \<open>begin(9600)\<close>, then a write of \<open>0x41\<close>, which queues the byte and
  enables the transmit-buffer-empty interrupt (\<open>UCSRnB = 0xB8\<close>), then \<open>end()\<close>. \<open>end()\<close>
  flushes both buffers and clears the receiver, the transmitter and the receive-complete
  interrupt enable, but leaves \<open>UDRIE0\<close>, the transmit-buffer-empty interrupt enable, set
  (\<open>UCSRnB = 0x20\<close>).
\<close>

theorem end_leaves_UDRIE0:
  "UART_begin 16000000 reset_usart 9600 0x06 = Some (open_9600, True) \<and>
   UART_putchar 0x41 (open_9600, fresh_uart) = Some (writing_port, 0x41) \<and>
   UART_end writing_port =
     ((open_9600\<lparr>UCSRnB := 0x20\<rparr>,
       \<lparr>m_ibuf = IOBuffer_init 2,
        m_obuf = \<lparr>storage = [0x41, 0], head = 0, tail = 0, count = 0\<rparr>\<rparr>), True) \<and>
   bit (0x20 :: uint8_t) UDRIE0"
proof (intro conjI)
  show "UART_begin 16000000 reset_usart 9600 0x06 = Some (open_9600, True)"
    by (simp add: UART_begin_def Let_def open_9600_def reset_usart_def
        BV_def U2X0_def RXCIE0_def RXEN0_def TXEN0_def)
  have two: "replicate 2 (0 :: uint8_t) = [0, 0]"
    by (simp add: numeral_2_eq_2)
  show "UART_putchar 0x41 (open_9600, fresh_uart) = Some (writing_port, 0x41)"
    by (simp add: UART_putchar_def writing_port_def open_9600_def reset_usart_def fresh_uart_def
        IOBuffer_putchar_def IOBuffer_init_def is_full_def capacity_def two
        BV_def UDRIE0_def)
  show "UART_end writing_port =
     ((open_9600\<lparr>UCSRnB := 0x20\<rparr>,
       \<lparr>m_ibuf = IOBuffer_init 2,
        m_obuf = \<lparr>storage = [0x41, 0], head = 0, tail = 0, count = 0\<rparr>\<rparr>), True)"
    by (simp add: UART_end_def writing_port_def open_9600_def reset_usart_def
        IOBuffer_flush_def IOBuffer_init_def BV_def RXCIE0_def RXEN0_def TXEN0_def)
  show "bit (0x20 :: uint8_t) UDRIE0"
    by (simp add: UDRIE0_def)
qed

text \<open>
  C6 on a 16 MHz part: \<open>begin(9600)\<close> sets the speed-doubling bit; a following
  \<open>begin(300)\<close>, whose double-speed divisor 6665 exceeds 4095, writes the single-speed
  divisor 3332 and returns with the speed-doubling bit still set.
\<close>

theorem begin_fallback_leaves_U2X:
  "UART_begin 16000000 reset_usart 9600 0x06 = Some (open_9600, True) \<and>
   spec_divisor8 16000000 300 = 6665 \<and>
   UART_begin 16000000 open_9600 300 0x06 = Some (open_9600\<lparr>UBRRn := 3332\<rparr>, True) \<and>
   bit (UCSRnA (open_9600\<lparr>UBRRn := 3332\<rparr>)) U2X0"
  by (simp add: UART_begin_def Let_def open_9600_def reset_usart_def spec_divisor8_def
      BV_def U2X0_def RXCIE0_def RXEN0_def TXEN0_def)

section \<open>The interrupt handlers\<close>

lemma udre_body_nonempty:
  assumes "\<not> is_empty (m_obuf u)"
  shows "udre_body (regs, u) =
           (regs\<lparr>UDRn_tx := UDRn_tx regs @ [storage (m_obuf u) ! tail (m_obuf u)]\<rparr>,
            u\<lparr>m_obuf := fst (IOBuffer_getchar (m_obuf u))\<rparr>)"
  using assms
  by (simp add: udre_body_def IOBuffer_getchar_def ucast_byte_neq_minus1 ucast_byte_back)

lemma udre_body_empty:
  assumes "is_empty (m_obuf u)"
  shows "udre_body (regs, u) = (regs\<lparr>UCSRnB := bit_clear (UCSRnB regs) UDRIE0\<rparr>, u)"
  using assms by (simp add: udre_body_def IOBuffer_getchar_def)

text \<open>
  C4. When the transmit-buffer-empty handler of channel 0 runs on a non-empty output buffer,
  it removes exactly the oldest queued byte and hands that byte to the data register, the
  control register untouched; on an empty output buffer it writes nothing to the data
  register, leaves the buffers as they are and clears \<open>UDRIE0\<close> and no other bit of
  \<open>UCSR0B\<close>.
\<close>

theorem USART_UDRE_handler:
  "(IOBuffer_inv (m_obuf (uart s)) \<and> \<not> is_empty (m_obuf (uart s)) \<longrightarrow>
      (\<exists>c. queued (m_obuf (uart s)) = c # queued (m_obuf (uart (ISR_USART_UDRE s))) \<and>
           UDRn_tx (usart0 (ISR_USART_UDRE s)) = UDRn_tx (usart0 s) @ [c]) \<and>
      count (m_obuf (uart (ISR_USART_UDRE s))) + 1 = count (m_obuf (uart s)) \<and>
      UCSRnB (usart0 (ISR_USART_UDRE s)) = UCSRnB (usart0 s)) \<and>
   (is_empty (m_obuf (uart s)) \<longrightarrow>
      UDRn_tx (usart0 (ISR_USART_UDRE s)) = UDRn_tx (usart0 s) \<and>
      uart (ISR_USART_UDRE s) = uart s \<and>
      (\<forall>n. bit (UCSRnB (usart0 (ISR_USART_UDRE s))) n
             \<longleftrightarrow> bit (UCSRnB (usart0 s)) n \<and> n \<noteq> UDRIE0))"
proof (intro conjI impI)
  assume a: "IOBuffer_inv (m_obuf (uart s)) \<and> \<not> is_empty (m_obuf (uart s))"
  then have ne: "\<not> is_empty (m_obuf (uart s))" and inv: "IOBuffer_inv (m_obuf (uart s))"
    by simp_all
  have step: "ISR_USART_UDRE s =
      s\<lparr>usart0 := (usart0 s)\<lparr>UDRn_tx := UDRn_tx (usart0 s)
                                  @ [storage (m_obuf (uart s)) ! tail (m_obuf (uart s))]\<rparr>,
        uart := (uart s)\<lparr>m_obuf := fst (IOBuffer_getchar (m_obuf (uart s)))\<rparr>\<rparr>"
    by (simp add: ISR_USART_UDRE_def udre_body_nonempty [OF ne])
  show "\<exists>c. queued (m_obuf (uart s)) = c # queued (m_obuf (uart (ISR_USART_UDRE s))) \<and>
           UDRn_tx (usart0 (ISR_USART_UDRE s)) = UDRn_tx (usart0 s) @ [c]"
    using getchar_queued [OF inv ne] by (simp add: step)
  show "count (m_obuf (uart (ISR_USART_UDRE s))) + 1 = count (m_obuf (uart s))"
    using ne by (simp add: step IOBuffer_getchar_def is_empty_def)
  show "UCSRnB (usart0 (ISR_USART_UDRE s)) = UCSRnB (usart0 s)"
    by (simp add: step)
next
  assume e: "is_empty (m_obuf (uart s))"
  have step: "ISR_USART_UDRE s =
      s\<lparr>usart0 := (usart0 s)\<lparr>UCSRnB := bit_clear (UCSRnB (usart0 s)) UDRIE0\<rparr>\<rparr>"
    by (simp add: ISR_USART_UDRE_def udre_body_empty [OF e])
  show "UDRn_tx (usart0 (ISR_USART_UDRE s)) = UDRn_tx (usart0 s)" by (simp add: step)
  show "uart (ISR_USART_UDRE s) = uart s" by (simp add: step)
  show "\<forall>n. bit (UCSRnB (usart0 (ISR_USART_UDRE s))) n
             \<longleftrightarrow> bit (UCSRnB (usart0 s)) n \<and> n \<noteq> UDRIE0"
    by (simp add: step bit_bit_clear)
qed

text \<open>C4 run twice: with \<open>0x41\<close> queued the handler transmits it and empties the queue; with
  nothing queued and \<open>UCSR0B = 0xB8\<close> it transmits nothing and \<open>UDRIE0\<close> ends clear while
  \<open>RXCIE0\<close> stays set.\<close>

theorem USART_UDRE_handler_runs:
  "IOBuffer_inv (m_obuf (uart sending_system)) \<and> \<not> is_empty (m_obuf (uart sending_system)) \<and>
   UDRn_tx (usart0 (ISR_USART_UDRE sending_system)) = [0x41] \<and>
   queued (m_obuf (uart (ISR_USART_UDRE sending_system))) = [] \<and>
   count (m_obuf (uart (ISR_USART_UDRE sending_system))) = 0 \<and>
   is_empty (m_obuf (uart drained_system)) \<and>
   UDRn_tx (usart0 (ISR_USART_UDRE drained_system)) = [] \<and>
   \<not> bit (UCSRnB (usart0 (ISR_USART_UDRE drained_system))) UDRIE0 \<and>
   bit (UCSRnB (usart0 (ISR_USART_UDRE drained_system))) RXCIE0"
proof -
  have i: "IOBuffer_inv (m_obuf (uart sending_system))"
    by (simp add: sending_system_def boot_system_def fresh_uart_def IOBuffer_inv_def capacity_def)
  have n: "\<not> is_empty (m_obuf (uart sending_system))"
    by (simp add: sending_system_def boot_system_def fresh_uart_def is_empty_def)
  have q: "queued (m_obuf (uart sending_system)) = [0x41]"
    by (simp add: sending_system_def boot_system_def fresh_uart_def queued_def capacity_def)
  have t: "UDRn_tx (usart0 sending_system) = []" "count (m_obuf (uart sending_system)) = 1"
    by (simp_all add: sending_system_def boot_system_def fresh_uart_def reset_usart_def)
  have e: "is_empty (m_obuf (uart drained_system))"
    by (simp add: drained_system_def boot_system_def fresh_uart_def IOBuffer_init_def is_empty_def)
  have d: "UDRn_tx (usart0 drained_system) = []" "UCSRnB (usart0 drained_system) = 0xB8"
    by (simp_all add: drained_system_def boot_system_def fresh_uart_def reset_usart_def)
  have b: "bit (0xB8 :: uint8_t) RXCIE0" "RXCIE0 \<noteq> UDRIE0"
    by (simp_all add: RXCIE0_def UDRIE0_def)
  from USART_UDRE_handler [of sending_system] i n q t
  have s1: "UDRn_tx (usart0 (ISR_USART_UDRE sending_system)) = [0x41]"
    "queued (m_obuf (uart (ISR_USART_UDRE sending_system))) = []"
    "count (m_obuf (uart (ISR_USART_UDRE sending_system))) = 0"
    by auto
  from USART_UDRE_handler [of drained_system] e d b
  have s2: "UDRn_tx (usart0 (ISR_USART_UDRE drained_system)) = []"
    "\<not> bit (UCSRnB (usart0 (ISR_USART_UDRE drained_system))) UDRIE0"
    "bit (UCSRnB (usart0 (ISR_USART_UDRE drained_system))) RXCIE0"
    by auto
  from i n e s1 s2 show ?thesis by (intro conjI)
qed

text \<open>
  C7. If the input buffer is full when the receive handler of channel 0 runs, the byte is
  read from the data register and dropped: the port's buffers (storage, indices and count)
  are exactly as before.
\<close>

theorem USART_RX_handler_full_drops:
  assumes "is_full (m_ibuf (uart s))"
  shows "uart (ISR_USART_RX s) = uart s \<and>
         UDRn_reads (usart0 (ISR_USART_RX s)) = UDRn_reads (usart0 s) + 1"
  using assms by (simp add: ISR_USART_RX_def rx_body_def IOBuffer_putchar_def)

text \<open>C7 on a two-byte input buffer holding \<open>0x61, 0x62\<close> with \<open>0x63\<close> arriving.\<close>

theorem USART_RX_handler_full_drops_flooded:
  "is_full (m_ibuf (uart flooded_system)) \<and>
   m_ibuf (uart (ISR_USART_RX flooded_system))
     = \<lparr>storage = [0x61, 0x62], head = 0, tail = 0, count = 2\<rparr> \<and>
   UDRn_reads (usart0 (ISR_USART_RX flooded_system)) = 1"
proof -
  have f: "is_full (m_ibuf (uart flooded_system))"
    by (simp add: flooded_system_def boot_system_def fresh_uart_def is_full_def capacity_def)
  have v: "m_ibuf (uart flooded_system) = \<lparr>storage = [0x61, 0x62], head = 0, tail = 0, count = 2\<rparr>"
    "UDRn_reads (usart0 flooded_system) = 0"
    by (simp_all add: flooded_system_def boot_system_def fresh_uart_def reset_usart_def)
  from USART_RX_handler_full_drops [OF f] v f show ?thesis by simp
qed

text \<open>
  C8. On the secondary channel, whenever the registered-instance pointer \<open>uart1\<close> is null,
  the transmit-buffer-empty handler and the receive handler both return at once: no buffer,
  data register or control register is read or written, the whole state is as before.
\<close>

theorem USART1_handlers_null:
  assumes "uart1 s = None"
  shows "ISR_USART1_UDRE s = s \<and> ISR_USART1_RX s = s"
  using assms by (simp add: ISR_USART1_UDRE_def ISR_USART1_RX_def)

text \<open>C8 on the system just started, where no port is registered on channel 1.\<close>

theorem USART1_handlers_null_boot:
  "uart1 boot_system = None \<and>
   ISR_USART1_UDRE boot_system = boot_system \<and> ISR_USART1_RX boot_system = boot_system"
proof -
  have n: "uart1 boot_system = None" by (simp add: boot_system_def fresh_uart_def)
  from n USART1_handlers_null [OF n] show ?thesis by (intro conjI) simp_all
qed

section \<open>The software variant's frame\<close>

lemma send_data_0x41:
  "send_data 8 0x41 104 =
     concat (map (\<lambda>b. [Pin_write b, DELAY 104])
       [True, False, False, False, False, False, True, False])"
  by code_simp

lemma tiny_begin_9600:
  "UART_tiny_begin 9600 format u = Some (u\<lparr>m_period := 104, m_format := format\<rparr>, True)"
  by (simp add: UART_tiny_begin_def)

text \<open>
  C5, as stated, fails: after \<open>begin(9600)\<close> with a format of 8 data bits, the levels that
  \<open>putchar(0x41)\<close> writes to the pin are not start, \<open>1,0,0,0,0,1,0\<close>, stop. (The code writes
  the eight data bits \<open>1,0,0,0,0,0,1,0\<close>.)
\<close>

theorem tiny_putchar_0x41_not_seven_bits:
  "UART_tiny_begin 9600 8 tiny0 = Some (tiny0\<lparr>m_period := 104, m_format := 8\<rparr>, True) \<and>
   pin_levels (line (fst (UART_tiny_putchar 0x0F 0x41 (tiny0\<lparr>m_period := 104, m_format := 8\<rparr>))))
     \<noteq> [False] @ [True, False, False, False, False, True, False] @ [True] \<and>
   pin_levels (line (fst (UART_tiny_putchar 0x0F 0x41 (tiny0\<lparr>m_period := 104, m_format := 8\<rparr>))))
     = [False] @ [True, False, False, False, False, False, True, False] @ [True]"
  by (simp add: tiny_begin_9600 UART_tiny_putchar_def Let_def tiny0_def send_data_0x41)

text \<open>
  C5, amended. Configured for 9600 baud and a format whose data-bit field is 8, \<open>write(0x41)\<close>
  drives the line low for one bit period (104 microseconds), then emits the eight bits
  \<open>1,0,0,0,0,0,1,0\<close> (\<open>0x41\<close> shifted right from its low bit), each held for one bit
  period, then drives the line high and holds it for 32 bit periods before returning
  \<open>0x41\<close>.
\<close>

theorem tiny_putchar_0x41_frame:
  assumes "format AND DATA_MASK = 8"
  shows "UART_tiny_begin 9600 format u = Some (u\<lparr>m_period := 104, m_format := format\<rparr>, True) \<and>
         UART_tiny_putchar DATA_MASK 0x41 (u\<lparr>m_period := 104, m_format := format\<rparr>) =
           (u\<lparr>m_period := 104, m_format := format,
              line := line u @
                frame_events 104 [True, False, False, False, False, False, True, False]\<rparr>,
            0x41)"
  using assms
  by (simp add: tiny_begin_9600 UART_tiny_putchar_def Let_def frame_events_def send_data_0x41)

text \<open>The amended C5 with the format byte 8 under the mask \<open>0x0F\<close>, event by event.\<close>

theorem tiny_putchar_0x41_frame_9600:
  "(8 :: uint8_t) AND 0x0F = 8 \<and>
   UART_tiny_begin 9600 8 tiny0 = Some (tiny0\<lparr>m_period := 104, m_format := 8\<rparr>, True) \<and>
   UART_tiny_putchar 0x0F 0x41 (tiny0\<lparr>m_period := 104, m_format := 8\<rparr>) =
     (\<lparr>m_period = 104, m_format = 8,
       line = [Pin_write False, DELAY 104,
               Pin_write True, DELAY 104, Pin_write False, DELAY 104,
               Pin_write False, DELAY 104, Pin_write False, DELAY 104,
               Pin_write False, DELAY 104, Pin_write False, DELAY 104,
               Pin_write True, DELAY 104, Pin_write False, DELAY 104,
               Pin_write True, DELAY 3328]\<rparr>, 0x41)"
proof -
  have a: "(8 :: uint8_t) AND 0x0F = 8" by simp
  from a tiny_putchar_0x41_frame [OF a, of tiny0] show ?thesis
    by (simp add: tiny0_def frame_events_def)
qed

section \<open>The backlight and the dial\<close>

text \<open>
  C9. For every flag value, \<open>set_backlight(flag)\<close> stores the negation of \<open>flag\<close> in the
  backlight bit of the port (a non-zero flag gives 0, a zero flag gives 1), leaves every
  other bit of the port as it was, and then writes the updated port byte to the device.
\<close>

theorem set_backlight_active_low:
  assumes "bt_pos < 8"
  shows "bit (m_port (set_backlight bt_pos flag io)) bt_pos = (flag = 0) \<and>
         (\<forall>n. n \<noteq> bt_pos \<longrightarrow>
              bit (m_port (set_backlight bt_pos flag io)) n = bit (m_port io) n) \<and>
         written (set_backlight bt_pos flag io)
           = written io @ [m_port (set_backlight bt_pos flag io)]"
  using assms
  by (auto simp: set_backlight_def write_port_def store_bit_field_def Let_def
      bit_set_bit_iff bit_unset_bit_iff)

text \<open>C9 with the backlight on pin 7: flag 1 on a port of all ones clears bit 7 and keeps
  bit 6; flag 0 on a port of all zeros sets bit 7.\<close>

theorem set_backlight_active_low_pin7:
  "(7 :: nat) < 8 \<and> (6 :: nat) \<noteq> 7 \<and>
   \<not> bit (m_port (set_backlight 7 1 \<lparr>m_port = 0xFF, written = []\<rparr>)) 7 \<and>
   bit (m_port (set_backlight 7 1 \<lparr>m_port = 0xFF, written = []\<rparr>)) 6 \<and>
   bit (m_port (set_backlight 7 0 \<lparr>m_port = 0x00, written = []\<rparr>)) 7 \<and>
   written (set_backlight 7 1 \<lparr>m_port = 0xFF, written = []\<rparr>)
     = [m_port (set_backlight 7 1 \<lparr>m_port = 0xFF, written = []\<rparr>)]"
proof -
  have a: "(7 :: nat) < 8" and b: "(6 :: nat) \<noteq> 7" by simp_all
  from set_backlight_active_low [OF a, of 1 "\<lparr>m_port = 0xFF, written = []\<rparr>"]
       set_backlight_active_low [OF a, of 0 "\<lparr>m_port = 0x00, written = []\<rparr>"] a b
  show ?thesis by simp
qed

text \<open>
  C10. In \<open>Dial::on_event\<close> every event value other than \<open>CW\<close> (so \<open>NONE\<close>, \<open>CCW\<close> and any
  other value) takes the counter-clockwise branch: the value is decremented by the step
  unless it equals \<open>min\<close>, in which case nothing changes; and only a value equal to \<open>max\<close>
  blocks the clockwise increment. Neither branch compares with the bound after the step, so
  a step across \<open>min\<close> or \<open>max\<close> is kept as it is.
\<close>

theorem on_event_direction:
  fixes d :: "('a::{plus,minus}) Dial"
  shows "(val \<noteq> Direction_value CW \<longrightarrow>
           on_event type val d = on_event type (Direction_value CCW) d \<and>
           on_event type val d =
             (if m_value d = m_min d then (d, None)
              else (d\<lparr>m_value := m_value d - m_step d\<rparr>, Some (m_value d - m_step d)))) \<and>
         on_event type (Direction_value CW) d =
             (if m_value d = m_max d then (d, None)
              else (d\<lparr>m_value := m_value d + m_step d\<rparr>, Some (m_value d + m_step d)))"
  by (simp add: on_event_def Let_def)

text \<open>C10 on an integer dial over 0..10 with step 2: the event \<open>NONE\<close> takes 1 down to -1,
  below \<open>min\<close>; \<open>CW\<close> takes 9 up to 11, above \<open>max\<close>.\<close>

theorem on_event_direction_steps_over:
  "Direction_value NONE \<noteq> Direction_value CW \<and>
   on_event 0 (Direction_value NONE) \<lparr>m_value = 1 :: int, m_min = 0, m_max = 10, m_step = 2\<rparr>
     = (\<lparr>m_value = - 1, m_min = 0, m_max = 10, m_step = 2\<rparr>, Some (- 1)) \<and>
   on_event 0 (Direction_value CW) \<lparr>m_value = 9 :: int, m_min = 0, m_max = 10, m_step = 2\<rparr>
     = (\<lparr>m_value = 11, m_min = 0, m_max = 10, m_step = 2\<rparr>, Some 11)"
proof -
  let ?d1 = "\<lparr>m_value = 1 :: int, m_min = 0, m_max = 10, m_step = 2\<rparr>"
  let ?d9 = "\<lparr>m_value = 9 :: int, m_min = 0, m_max = 10, m_step = 2\<rparr>"
  have a: "Direction_value NONE \<noteq> Direction_value CW" by simp
  from a on_event_direction [of "Direction_value NONE" 0 ?d1]
  have down: "on_event 0 (Direction_value NONE) ?d1 =
      (if m_value ?d1 = m_min ?d1 then (?d1, None)
       else (?d1\<lparr>m_value := m_value ?d1 - m_step ?d1\<rparr>, Some (m_value ?d1 - m_step ?d1)))"
    by blast
  from on_event_direction [of "Direction_value NONE" 0 ?d9]
  have up: "on_event 0 (Direction_value CW) ?d9 =
      (if m_value ?d9 = m_max ?d9 then (?d9, None)
       else (?d9\<lparr>m_value := m_value ?d9 + m_step ?d9\<rparr>, Some (m_value ?d9 + m_step ?d9)))"
    by blast
  from a down up show ?thesis by simp
qed

end
